theory Spec2Isabelle
  imports Main
begin

section \<open>Values exchanged with the clients\<close>

text \<open>
  The gateway of \<^verbatim>\<open>core/gateway_server.py\<close> decodes every text frame with
  \<^verbatim>\<open>json.loads\<close> and encodes every reply with \<^verbatim>\<open>json.dumps\<close>. The values in
  between are Python objects: \<^verbatim>\<open>None\<close>, booleans, integers, floats, strings, lists and
  dictionaries with string keys. A float is kept as mantissa and exponent, or as one of
  the three non-finite values that \<^verbatim>\<open>json.loads\<close> accepts. A dictionary is the list of
  its items in insertion order; a decoded object holds each key once, since
  \<^verbatim>\<open>json.loads\<close> keeps one value for a repeated key.

  Strings are byte lists: a Python string is modelled by its UTF-8 encoding, which is what
  travels in a WebSocket text frame. The empty Python string is the empty list.
\<close>

datatype pyfloat = FloatVal int int | FloatInf bool | FloatNaN

datatype json =
    JNull
  | JBool bool
  | JInt int
  | JFloat pyfloat
  | JStr string
  | JArr "json list"
  | JObj "(string \<times> json) list"

type_synonym pydict = "(string \<times> json) list"

text \<open>The truth value Python gives an object in \<^verbatim>\<open>if x\<close>, \<^verbatim>\<open>not x\<close> and \<^verbatim>\<open>x or y\<close>.\<close>

fun truthy :: "json \<Rightarrow> bool" where
  "truthy JNull = False"
| "truthy (JBool b) = b"
| "truthy (JInt i) = (i \<noteq> 0)"
| "truthy (JFloat (FloatVal m e)) = (m \<noteq> 0)"
| "truthy (JFloat (FloatInf s)) = True"
| "truthy (JFloat FloatNaN) = True"
| "truthy (JStr s) = (s \<noteq> [])"
| "truthy (JArr xs) = (xs \<noteq> [])"
| "truthy (JObj kvs) = (kvs \<noteq> [])"

text \<open>\<^verbatim>\<open>d.get(k)\<close>: the value stored under \<open>k\<close>, and \<^verbatim>\<open>None\<close> when there is none.\<close>

definition dict_get :: "pydict \<Rightarrow> string \<Rightarrow> json" where
  "dict_get d k = (case map_of d k of None \<Rightarrow> JNull | Some v \<Rightarrow> v)"

text \<open>\<^verbatim>\<open>a or b\<close>: the first operand when it is truthy, the second otherwise.\<close>

definition py_or :: "json \<Rightarrow> json \<Rightarrow> json" where
  "py_or a b = (if truthy a then a else b)"

text \<open>A received WebSocket message is a \<^verbatim>\<open>str\<close> (text frame) or \<^verbatim>\<open>bytes\<close> (binary frame).\<close>

datatype ws_message = Text string | Bytes string

section \<open>Configuration, upstream service and connection state\<close>

text \<open>
  The fields \<^verbatim>\<open>__init__\<close> reads from the \<^verbatim>\<open>gateway\<close> section of the configuration.
  \<^verbatim>\<open>allowed_devices\<close> is the configured list; the code turns it into a set, so only
  membership and emptiness are ever asked of it.
\<close>

record gateway_config =
  require_device_id :: bool
  allowed_devices :: "string list"
  model :: string

text \<open>
  What \<^verbatim>\<open>client.chat.completions.create\<close> returns: a completion object with a list of
  choices (possibly \<^verbatim>\<open>None\<close>), each with an optional message, each with optional content.
\<close>

record chat_message =
  content :: "string option"

record choice =
  message :: "chat_message option"

record chat_completion =
  choices :: "choice list option"

text \<open>
  The upstream call is a parameter of the model. It receives the model name and the
  messages, may depend on and change a state \<open>'u\<close> of the remote service, and either raises
  (\<open>Inl\<close>, with the text \<^verbatim>\<open>str(exc)\<close> of the exception) or returns a completion.
\<close>

type_synonym 'u create = "string \<Rightarrow> json \<Rightarrow> 'u \<Rightarrow> (string + chat_completion) \<times> 'u"

text \<open>
  The observable state of one connection: the payloads passed to \<^verbatim>\<open>websocket.send\<close>
  in order (each is recorded as the dictionary given to \<^verbatim>\<open>json.dumps\<close>), whether the
  gateway has closed the socket, the arguments of every call of \<^verbatim>\<open>_call_openai\<close>, and
  the state of the upstream service.
\<close>

record 'u world =
  sent :: "json list"
  conn_open :: bool
  invoked :: "json list"
  upstream :: 'u

definition send :: "'u world \<Rightarrow> json \<Rightarrow> 'u world" where
  "send w payload = w\<lparr>sent := sent w @ [payload]\<rparr>"

definition close :: "'u world \<Rightarrow> 'u world" where
  "close w = w\<lparr>conn_open := False\<rparr>"

section \<open>The messages of the error frames\<close>

text \<open>
  The literals of the source, byte by byte in UTF-8. In order: the device identifier is
  missing; the device identifier is not authorised; only text messages are supported; the
  message format is invalid; the messages or text field is missing; and the prefix of a
  failed upstream request.
\<close>

definition msg_missing_device_id :: string where
  "msg_missing_device_id =
     [CHR 0xE7, CHR 0xBC, CHR 0xBA, CHR 0xE5, CHR 0xB0, CHR 0x91] @ ''device-id'' @
     [CHR 0xEF, CHR 0xBC, CHR 0x8C, CHR 0xE6, CHR 0x8B, CHR 0x92, CHR 0xE7, CHR 0xBB, CHR 0x9D,
      CHR 0xE8, CHR 0xBF, CHR 0x9E, CHR 0xE6, CHR 0x8E, CHR 0xA5, CHR 0xE3, CHR 0x80, CHR 0x82]"

definition msg_unauthorized :: string where
  "msg_unauthorized =
     ''device-id'' @
     [CHR 0xE6, CHR 0x9C, CHR 0xAA, CHR 0xE6, CHR 0x8E, CHR 0x88, CHR 0xE6, CHR 0x9D, CHR 0x83,
      CHR 0xE3, CHR 0x80, CHR 0x82]"

definition msg_only_text :: string where
  "msg_only_text =
     [CHR 0xE4, CHR 0xBB, CHR 0x85, CHR 0xE6, CHR 0x94, CHR 0xAF, CHR 0xE6, CHR 0x8C, CHR 0x81,
      CHR 0xE6, CHR 0x96, CHR 0x87, CHR 0xE6, CHR 0x9C, CHR 0xAC, CHR 0xE6, CHR 0xB6, CHR 0x88,
      CHR 0xE6, CHR 0x81, CHR 0xAF, CHR 0xE3, CHR 0x80, CHR 0x82]"

definition msg_invalid_format :: string where
  "msg_invalid_format =
     [CHR 0xE6, CHR 0xB6, CHR 0x88, CHR 0xE6, CHR 0x81, CHR 0xAF, CHR 0xE6, CHR 0xA0, CHR 0xBC,
      CHR 0xE5, CHR 0xBC, CHR 0x8F, CHR 0xE4, CHR 0xB8, CHR 0x8D, CHR 0xE5, CHR 0x90, CHR 0x88,
      CHR 0xE6, CHR 0xB3, CHR 0x95, CHR 0xE3, CHR 0x80, CHR 0x82]"

definition msg_missing_content :: string where
  "msg_missing_content =
     [CHR 0xE7, CHR 0xBC, CHR 0xBA, CHR 0xE5, CHR 0xB0, CHR 0x91] @ ''messages'' @
     [CHR 0xE6, CHR 0x88, CHR 0x96] @ ''text'' @
     [CHR 0xE5, CHR 0xAD, CHR 0x97, CHR 0xE6, CHR 0xAE, CHR 0xB5, CHR 0xE3, CHR 0x80, CHR 0x82]"

definition msg_openai_failed :: string where
  "msg_openai_failed =
     ''OpenAI'' @
     [CHR 0xE8, CHR 0xAF, CHR 0xB7, CHR 0xE6, CHR 0xB1, CHR 0x82, CHR 0xE5, CHR 0xA4, CHR 0xB1,
      CHR 0xE8, CHR 0xB4, CHR 0xA5] @ '': ''"

section \<open>The gateway\<close>

text \<open>
  \<^verbatim>\<open>_send_error(websocket, message, request_id=None)\<close>: the error dictionary, with the
  correlation id added only when it is truthy, is sent as one frame.
\<close>

definition send_error :: "'u world \<Rightarrow> string \<Rightarrow> json \<Rightarrow> 'u world" where
  "send_error w msg request_id =
     (let payload = [(''type'', JStr ''error''), (''message'', JStr msg)];
          payload = (if truthy request_id then payload @ [(''request_id'', request_id)]
                     else payload)
      in send w (JObj payload))"

text \<open>
  \<^verbatim>\<open>_parse_payload\<close>. The decoder \<^verbatim>\<open>json.loads\<close> belongs to the standard library and is
  a parameter: \<open>None\<close> stands for \<^verbatim>\<open>JSONDecodeError\<close>. The result \<open>None\<close> of
  \<open>parse_payload\<close> is Python's \<^verbatim>\<open>None\<close>.
\<close>

definition parse_payload :: "(string \<Rightarrow> json option) \<Rightarrow> string \<Rightarrow> pydict option" where
  "parse_payload loads msg =
     (case loads msg of
        None \<Rightarrow> Some [(''text'', JStr msg)]
      | Some parsed \<Rightarrow> (case parsed of JObj d \<Rightarrow> Some d | _ \<Rightarrow> None))"

text \<open>
  \<^verbatim>\<open>_call_openai\<close>, run through \<^verbatim>\<open>asyncio.to_thread\<close>. The call is recorded in
  \<open>invoked\<close>; an exception of the upstream call propagates to the caller.
\<close>

definition call_openai ::
  "gateway_config \<Rightarrow> 'u create \<Rightarrow> 'u world \<Rightarrow> json \<Rightarrow> (string + string) \<times> 'u world" where
  "call_openai cfg create w messages =
     (let (r, u) = create (model cfg) messages (upstream w);
          w = w\<lparr>invoked := invoked w @ [messages], upstream := u\<rparr>
      in case r of
           Inl exc \<Rightarrow> (Inl exc, w)
         | Inr response \<Rightarrow>
             (let choice = (case choices response of
                              Some (c # cs) \<Rightarrow> Some c
                            | _ \<Rightarrow> None)
              in case choice of
                   Some c \<Rightarrow>
                     (case message c of
                        Some m \<Rightarrow>
                          (case content m of
                             Some s \<Rightarrow> (Inr (if s \<noteq> [] then s else []), w)
                           | None \<Rightarrow> (Inr [], w))
                      | None \<Rightarrow> (Inr [], w))
                 | None \<Rightarrow> (Inr [], w)))"

text \<open>
  \<^verbatim>\<open>_handle_message\<close>. \<open>device_id\<close> is the value of \<^verbatim>\<open>headers.get("device-id")\<close>, a
  string or \<^verbatim>\<open>None\<close>.
\<close>

definition device_json :: "string option \<Rightarrow> json" where
  "device_json device_id = (case device_id of None \<Rightarrow> JNull | Some d \<Rightarrow> JStr d)"

text \<open>
  The block of \<^verbatim>\<open>_handle_message\<close> that settles \<^verbatim>\<open>messages\<close>, from
  \<^verbatim>\<open>messages = payload.get("messages")\<close> to the assignment of the single user turn. The early
  return of the missing-content branch is the value \<open>None\<close>; otherwise the result is
  \<^verbatim>\<open>messages\<close> as it stands at the call of \<^verbatim>\<open>_call_openai\<close>.
\<close>

definition normalized :: "pydict \<Rightarrow> json option" where
  "normalized payload =
     (let messages = dict_get payload ''messages''
      in if \<not> truthy messages
         then (let text = py_or (py_or (dict_get payload ''text'') (dict_get payload ''content''))
                                (dict_get payload ''prompt'')
               in if \<not> truthy text then None
                  else Some (JArr [JObj [(''role'', JStr ''user''), (''content'', text)]]))
         else Some messages)"

definition handle_message ::
  "gateway_config \<Rightarrow> (string \<Rightarrow> json option) \<Rightarrow> 'u create \<Rightarrow>
   'u world \<Rightarrow> ws_message \<Rightarrow> string option \<Rightarrow> 'u world" where
  "handle_message cfg loads create w msg device_id =
     (case msg of
        Bytes b \<Rightarrow> send_error w msg_only_text JNull
      | Text s \<Rightarrow>
          (case parse_payload loads s of
             None \<Rightarrow> send_error w msg_invalid_format JNull
           | Some payload \<Rightarrow>
               (case normalized payload of
                  None \<Rightarrow> send_error w msg_missing_content JNull
                | Some messages \<Rightarrow>
                    (let request_id = dict_get payload ''request_id''
                     in case call_openai cfg create w messages of
                          (Inl exc, w) \<Rightarrow> send_error w (msg_openai_failed @ exc) request_id
                        | (Inr response_text, w) \<Rightarrow>
                            (let response_payload =
                                   [(''type'', JStr ''response''),
                                    (''device_id'', device_json device_id),
                                    (''content'', JStr response_text)];
                                 response_payload =
                                   (if truthy request_id
                                    then response_payload @ [(''request_id'', request_id)]
                                    else response_payload)
                             in send w (JObj response_payload))))))"

text \<open>
  The receive loop \<^verbatim>\<open>async for message in websocket\<close>: the frames the client sends
  before it disconnects, handled one after the other.
\<close>

fun receive_loop ::
  "gateway_config \<Rightarrow> (string \<Rightarrow> json option) \<Rightarrow> 'u create \<Rightarrow>
   'u world \<Rightarrow> ws_message list \<Rightarrow> string option \<Rightarrow> 'u world" where
  "receive_loop cfg loads create w [] device_id = w"
| "receive_loop cfg loads create w (msg # rest) device_id =
     receive_loop cfg loads create (handle_message cfg loads create w msg device_id) rest device_id"

text \<open>
  \<^verbatim>\<open>_handle_connection\<close>, from the dictionary \<open>headers\<close> of the request headers on.
  \<^verbatim>\<open>not device_id\<close> holds for \<^verbatim>\<open>None\<close> and for the empty string;
  \<^verbatim>\<open>device_id not in self.allowed_devices\<close> holds for \<^verbatim>\<open>None\<close> and for a string outside
  the set.
\<close>

definition handle_connection ::
  "gateway_config \<Rightarrow> (string \<Rightarrow> json option) \<Rightarrow> 'u create \<Rightarrow>
   'u world \<Rightarrow> (string \<times> string) list \<Rightarrow> ws_message list \<Rightarrow> 'u world" where
  "handle_connection cfg loads create w headers frames =
     (let device_id = map_of headers ''device-id''
      in if require_device_id cfg \<and> (device_id = None \<or> device_id = Some [])
         then close (send_error w msg_missing_device_id JNull)
         else if allowed_devices cfg \<noteq> [] \<and>
                 (case device_id of None \<Rightarrow> True | Some d \<Rightarrow> d \<notin> set (allowed_devices cfg))
         then close (send_error w msg_unauthorized JNull)
         else receive_loop cfg loads create w frames device_id)"

section \<open>The handshake headers\<close>

text \<open>Lower case of a header name. Header names are ASCII, so only the letters A to Z change.\<close>

definition lower_char :: "char \<Rightarrow> char" where
  "lower_char c =
     (case map_of (zip ''ABCDEFGHIJKLMNOPQRSTUVWXYZ'' ''abcdefghijklmnopqrstuvwxyz'') c of
        Some l \<Rightarrow> l
      | None \<Rightarrow> c)"

definition lower :: "string \<Rightarrow> string" where
  "lower s = map lower_char s"

text \<open>The exception that escapes \<^verbatim>\<open>_handle_connection\<close> when the headers cannot be converted.\<close>

datatype error = MultipleValuesError string

text \<open>
  Modelled from the spec: the object \<^verbatim>\<open>websocket.request.headers\<close> and its conversion by
  \<^verbatim>\<open>dict(...)\<close> belong to the websockets library, whose code is not among the sources.
  The specification (External interfaces) describes the device header as "an
  upper-case-insensitive header identifying the device (device-id)": a header is found
  under its name whatever the letter case the client wrote it in. Accordingly the
  dictionary built from the header lines \<open>raw\<close> of the upgrade request holds every header
  under its name in lower case, with the value unchanged. The library keeps all the values
  of a name that the request repeats and refuses to give a single one: the conversion then
  raises \<^verbatim>\<open>MultipleValuesError\<close> for the first such name.
\<close>

definition request_headers :: "(string \<times> string) list \<Rightarrow> error + (string \<times> string) list" where
  "request_headers raw =
     (let names = map (\<lambda>(name, v). lower name) raw
      in case find (\<lambda>key. count_list names key \<noteq> 1) names of
           Some key \<Rightarrow> Inl (MultipleValuesError key)
         | None \<Rightarrow> Inr (map (\<lambda>(name, v). (lower name, v)) raw))"

text \<open>
  \<^verbatim>\<open>_handle_connection\<close> from the header lines of the upgrade request on. The exception of
  the conversion is not caught: the handler ends before anything is sent.
\<close>

definition serve_connection ::
  "gateway_config \<Rightarrow> (string \<Rightarrow> json option) \<Rightarrow> 'u create \<Rightarrow>
   'u world \<Rightarrow> (string \<times> string) list \<Rightarrow> ws_message list \<Rightarrow> error + 'u world" where
  "serve_connection cfg loads create w raw frames =
     (case request_headers raw of
        Inl exc \<Rightarrow> Inl exc
      | Inr headers \<Rightarrow> Inr (handle_connection cfg loads create w headers frames))"

section \<open>Concrete inputs\<close>

text \<open>
  The examples below run the gateway on concrete frames. \<open>sample_loads\<close> gives the result of
  \<^verbatim>\<open>json.loads\<close> on the frames they use: the empty string and the word hello are not JSON
  documents and make it raise; the word NaN is not a JSON document either, but
  \<^verbatim>\<open>json.loads\<close> decodes it to the float of that name; the other frames decode to the values
  shown. It is used on no other string.
\<close>

definition sample_loads :: "string \<Rightarrow> json option" where
  \<open>sample_loads s =
     (if s = ''{"request_id":"42"}'' then Some (JObj [(''request_id'', JStr ''42'')])
      else if s = ''{"text":"hi","request_id":"42"}''
        then Some (JObj [(''text'', JStr ''hi''), (''request_id'', JStr ''42'')])
      else if s = ''{"messages":"abc","text":"hi"}''
        then Some (JObj [(''messages'', JStr ''abc''), (''text'', JStr ''hi'')])
      else if s = ''{"messages":[{"role":"user"}]}''
        then Some (JObj [(''messages'', JArr [JObj [(''role'', JStr ''user'')]])])
      else if s = ''{"content":"second","prompt":"third"}''
        then Some (JObj [(''content'', JStr ''second''), (''prompt'', JStr ''third'')])
      else if s = ''[1]'' then Some (JArr [JInt 1])
      else if s = ''NaN'' then Some (JFloat FloatNaN)
      else None)\<close>

text \<open>Upstream services: one that always answers with the same text, and one whose first
  call times out and whose later calls answer; its state counts the calls.\<close>

definition completion :: "string \<Rightarrow> chat_completion" where
  "completion s = \<lparr>choices = Some [\<lparr>message = Some \<lparr>content = Some s\<rparr>\<rparr>]\<rparr>"

definition steady_create :: "string \<Rightarrow> unit create" where
  "steady_create s mdl messages u = (Inr (completion s), u)"

definition flaky_create :: "nat create" where
  "flaky_create mdl messages n =
     (if n = 0 then (Inl ''Request timed out.'', Suc n) else (Inr (completion ''pong''), Suc n))"

definition sample_config :: gateway_config where
  "sample_config = \<lparr>require_device_id = True, allowed_devices = [], model = ''gpt-4o-mini''\<rparr>"

definition fresh :: "'u \<Rightarrow> 'u world" where
  "fresh u = \<lparr>sent = [], conn_open = True, invoked = [], upstream = u\<rparr>"

section \<open>Basic facts about the effects\<close>

lemma send_error_plain:
  "send_error w msg JNull =
     w\<lparr>sent := sent w @ [JObj [(''type'', JStr ''error''), (''message'', JStr msg)]]\<rparr>"
  by (simp add: send_error_def send_def)

lemma send_error_correlated:
  "send_error w msg rid =
     w\<lparr>sent := sent w @ [JObj ([(''type'', JStr ''error''), (''message'', JStr msg)] @
                               (if truthy rid then [(''request_id'', rid)] else []))]\<rparr>"
  by (simp add: send_error_def send_def)

lemma call_openai_raises:
  "create (model cfg) messages (upstream w) = (Inl exc, u) \<Longrightarrow>
   call_openai cfg create w messages =
     (Inl exc, w\<lparr>invoked := invoked w @ [messages], upstream := u\<rparr>)"
  by (simp add: call_openai_def)

lemma call_openai_returns:
  "create (model cfg) messages (upstream w) = (Inr response, u) \<Longrightarrow>
   \<exists>reply. call_openai cfg create w messages =
     (Inr reply, w\<lparr>invoked := invoked w @ [messages], upstream := u\<rparr>)"
  by (simp add: call_openai_def Let_def split: option.splits list.splits)

lemma call_openai_world:
  "snd (call_openai cfg create w messages) =
     w\<lparr>invoked := invoked w @ [messages],
       upstream := snd (create (model cfg) messages (upstream w))\<rparr>"
  by (simp add: call_openai_def Let_def split: prod.splits sum.splits option.splits list.splits)

lemma handle_message_Text:
  "parse_payload loads s = Some payload \<Longrightarrow> normalized payload = Some messages \<Longrightarrow>
   handle_message cfg loads create w (Text s) device_id =
     (case call_openai cfg create w messages of
        (Inl exc, w') \<Rightarrow> send_error w' (msg_openai_failed @ exc) (dict_get payload ''request_id'')
      | (Inr response_text, w') \<Rightarrow>
          send w' (JObj ([(''type'', JStr ''response''), (''device_id'', device_json device_id),
                          (''content'', JStr response_text)] @
                         (if truthy (dict_get payload ''request_id'')
                          then [(''request_id'', dict_get payload ''request_id'')] else []))))"
  by (simp add: handle_message_def Let_def split: prod.splits sum.splits)

lemma handle_message_missing:
  "parse_payload loads s = Some payload \<Longrightarrow> normalized payload = None \<Longrightarrow>
   handle_message cfg loads create w (Text s) device_id =
     w\<lparr>sent := sent w @ [JObj [(''type'', JStr ''error''), (''message'', JStr msg_missing_content)]]\<rparr>"
  by (simp add: handle_message_def send_error_plain)

lemma parse_payload_object: "loads s = Some (JObj d) \<Longrightarrow> parse_payload loads s = Some d"
  by (simp add: parse_payload_def)

lemma parse_payload_fallback: "loads s = None \<Longrightarrow> parse_payload loads s = Some [(''text'', JStr s)]"
  by (simp add: parse_payload_def)

lemma handle_message_invoked:
  "parse_payload loads s = Some payload \<Longrightarrow> normalized payload = Some messages \<Longrightarrow>
   invoked (handle_message cfg loads create w (Text s) device_id) = invoked w @ [messages]"
proof -
  assume p: "parse_payload loads s = Some payload" and n: "normalized payload = Some messages"
  obtain r w' where c: "call_openai cfg create w messages = (r, w')"
    by (cases "call_openai cfg create w messages")
  have "invoked w' = invoked w @ [messages]"
    using call_openai_world [of cfg create w messages] c by simp
  then show ?thesis
    using p n c by (cases r) (simp_all add: handle_message_Text send_error_correlated send_def)
qed

lemma handle_message_reply_frame:
  assumes "parse_payload loads s = Some payload" and "normalized payload = Some messages"
  shows "\<exists>body. sent (handle_message cfg loads create w (Text s) device_id) =
           sent w @ [JObj (body @ (if truthy (dict_get payload ''request_id'')
                                    then [(''request_id'', dict_get payload ''request_id'')] else []))] \<and>
           ((\<exists>reply. body = [(''type'', JStr ''response''), (''device_id'', device_json device_id),
                               (''content'', JStr reply)]) \<or>
            (\<exists>exc. body = [(''type'', JStr ''error''), (''message'', JStr (msg_openai_failed @ exc))]))"
proof -
  obtain r w' where c: "call_openai cfg create w messages = (r, w')"
    by (cases "call_openai cfg create w messages")
  have "sent w' = sent w"
    using call_openai_world [of cfg create w messages] c by simp
  then show ?thesis
    using assms c by (cases r) (simp_all add: handle_message_Text send_error_correlated send_def)
qed

lemma handle_message_upstream_raises:
  assumes "parse_payload loads s = Some payload" and "normalized payload = Some messages"
    and "create (model cfg) messages (upstream w) = (Inl detail, u)"
  shows "handle_message cfg loads create w (Text s) device_id =
           w\<lparr>sent := sent w @
                   [JObj ([(''type'', JStr ''error''),
                           (''message'', JStr (msg_openai_failed @ detail))] @
                          (if truthy (dict_get payload ''request_id'')
                           then [(''request_id'', dict_get payload ''request_id'')] else []))],
             invoked := invoked w @ [messages], upstream := u\<rparr>"
proof -
  have c: "call_openai cfg create w messages =
             (Inl detail, w\<lparr>invoked := invoked w @ [messages], upstream := u\<rparr>)"
    using assms(3) by (simp add: call_openai_def)
  show ?thesis
    unfolding handle_message_Text [OF assms(1,2)] c
    by (simp add: send_error_correlated)
qed

lemma handle_message_upstream_returns:
  assumes "parse_payload loads s = Some payload" and "normalized payload = Some messages"
    and "create (model cfg) messages (upstream w) = (Inr response, u)"
  shows "\<exists>reply. handle_message cfg loads create w (Text s) device_id =
           w\<lparr>sent := sent w @
                   [JObj ([(''type'', JStr ''response''), (''device_id'', device_json device_id),
                           (''content'', JStr reply)] @
                          (if truthy (dict_get payload ''request_id'')
                           then [(''request_id'', dict_get payload ''request_id'')] else []))],
             invoked := invoked w @ [messages], upstream := u\<rparr>"
proof -
  have "\<exists>reply. call_openai cfg create w messages =
      (Inr reply, w\<lparr>invoked := invoked w @ [messages], upstream := u\<rparr>)"
    using assms(3) by (rule call_openai_returns)
  then obtain reply where c: "call_openai cfg create w messages =
      (Inr reply, w\<lparr>invoked := invoked w @ [messages], upstream := u\<rparr>)"
    by (rule exE)
  have r: "handle_message cfg loads create w (Text s) device_id =
           w\<lparr>sent := sent w @
                   [JObj ([(''type'', JStr ''response''), (''device_id'', device_json device_id),
                           (''content'', JStr reply)] @
                          (if truthy (dict_get payload ''request_id'')
                           then [(''request_id'', dict_get payload ''request_id'')] else []))],
             invoked := invoked w @ [messages], upstream := u\<rparr>"
    unfolding handle_message_Text [OF assms(1,2)] c
    by (simp add: send_def)
  show ?thesis
    by (rule exI) (rule r)
qed

lemma count_list_distinct: "distinct xs \<Longrightarrow> x \<in> set xs \<Longrightarrow> count_list xs x = 1"
  by (induction xs) auto

lemma request_headers_distinct:
  assumes "distinct (map (\<lambda>(name, v). lower name) raw)"
  shows "request_headers raw = Inr (map (\<lambda>(name, v). (lower name, v)) raw)"
proof -
  have "find (\<lambda>key. count_list (map (\<lambda>(name, v). lower name) raw) key \<noteq> 1)
          (map (\<lambda>(name, v). lower name) raw) = None"
    unfolding find_None_iff using count_list_distinct [OF assms] by blast
  then show ?thesis
    by (simp add: request_headers_def)
qed

lemma map_of_request_headers:
  assumes "(name, v) \<in> set raw" and "distinct (map (\<lambda>(name, v). lower name) raw)"
  shows "map_of (map (\<lambda>(name, v). (lower name, v)) raw) (lower name) = Some v"
proof -
  have keys: "map fst (map (\<lambda>(name, v). (lower name, v)) raw) = map (\<lambda>(name, v). lower name) raw"
    by (induction raw) auto
  have dk: "distinct (map fst (map (\<lambda>(name, v). (lower name, v)) raw))"
    using assms(2) by (simp only: keys)
  have mem: "(lower name, v) \<in> set (map (\<lambda>(name, v). (lower name, v)) raw)"
    using assms(1) by force
  show ?thesis
    using map_of_eq_Some_iff [OF dk, of "lower name" v] mem by blast
qed

lemma handle_connection_device:
  assumes "map_of headers ''device-id'' = Some v"
  shows "handle_connection cfg loads create w headers frames =
           (if require_device_id cfg \<and> v = []
            then w\<lparr>sent := sent w @ [JObj [(''type'', JStr ''error''),
                                            (''message'', JStr msg_missing_device_id)]],
                   conn_open := False\<rparr>
            else if allowed_devices cfg \<noteq> [] \<and> v \<notin> set (allowed_devices cfg)
            then w\<lparr>sent := sent w @ [JObj [(''type'', JStr ''error''),
                                            (''message'', JStr msg_unauthorized)]],
                   conn_open := False\<rparr>
            else receive_loop cfg loads create w frames (Some v))"
  using assms by (simp add: handle_connection_def Let_def send_error_plain close_def)

lemma lower_device_id: "lower ''device-id'' = ''device-id''"
  by (simp add: lower_def lower_char_def)

section \<open>The Backend Adapter\<close>

text \<open>
  Claim C6. When the upstream call returns a completion, \<^verbatim>\<open>_call_openai\<close> returns the
  content of the message of the first choice; it returns the empty string when the
  completion has no choices (\<^verbatim>\<open>None\<close> or an empty list), when the first choice has no
  message, and when that message has no content.
\<close>

theorem call_openai_reply:
  assumes "create (model cfg) messages (upstream w) = (Inr response, u)"
  shows "(\<forall>c cs m s. choices response = Some (c # cs) \<and> message c = Some m \<and> content m = Some s
            \<longrightarrow> fst (call_openai cfg create w messages) = Inr s) \<and>
         (choices response = None \<or> choices response = Some [] \<or>
          (\<exists>c cs. choices response = Some (c # cs) \<and>
             (message c = None \<or> (\<exists>m. message c = Some m \<and> content m = None)))
            \<longrightarrow> fst (call_openai cfg create w messages) = Inr [])"
  using assms by (auto simp: call_openai_def)

theorem call_openai_reply_witness:
  "steady_create ''pong'' (model sample_config) (JArr []) (upstream (fresh ())) =
     (Inr (completion ''pong''), ()) \<and>
   fst (call_openai sample_config (steady_create ''pong'') (fresh ()) (JArr [])) = Inr ''pong''"
proof -
  have up: "steady_create ''pong'' (model sample_config) (JArr []) (upstream (fresh ())) =
              (Inr (completion ''pong''), ())"
    by (simp add: steady_create_def)
  from up call_openai_reply [of "steady_create ''pong''" sample_config "JArr []" "fresh ()"
      "completion ''pong''" "()"]
  show ?thesis
    by (simp add: completion_def)
qed

section \<open>Binary frames\<close>

text \<open>
  Claim C8. A binary frame on an accepted connection is answered by exactly one error frame
  with the only-text-messages-supported message. Whatever the decoder and the upstream
  service are, neither is consulted: nothing is added to the calls of the Backend Adapter
  and the upstream state is untouched. The connection is not closed, and the receive loop
  goes on with the frames that follow.
\<close>

theorem binary_frame_rejected:
  "handle_message cfg loads create w (Bytes b) device_id =
     w\<lparr>sent := sent w @ [JObj [(''type'', JStr ''error''), (''message'', JStr msg_only_text)]]\<rparr> \<and>
   conn_open (handle_message cfg loads create w (Bytes b) device_id) = conn_open w \<and>
   invoked (handle_message cfg loads create w (Bytes b) device_id) = invoked w \<and>
   upstream (handle_message cfg loads create w (Bytes b) device_id) = upstream w \<and>
   receive_loop cfg loads create w (Bytes b # rest) device_id =
     receive_loop cfg loads create
       (w\<lparr>sent := sent w @ [JObj [(''type'', JStr ''error''), (''message'', JStr msg_only_text)]]\<rparr>)
       rest device_id"
  by (simp add: handle_message_def send_error_plain)

section \<open>The authentication gate\<close>

text \<open>
  Claim C1, as the code has it. Let \<open>device_id\<close> be the value of the device-id header.
  The connection is rejected when \<open>require_device_id\<close> is set and the identifier is absent
  or the empty string; it is rejected when \<open>allowed_devices\<close> is non-empty and the
  identifier is absent or not a member; it is accepted otherwise, and the receive loop runs
  on the frames. A rejection sends exactly one error frame and closes the connection; the
  Backend Adapter is not invoked, since nothing else of the state changes.
\<close>

theorem handle_connection_gate:
  assumes "device_id = map_of headers ''device-id''"
  shows "(require_device_id cfg \<and> (device_id = None \<or> device_id = Some []) \<longrightarrow>
            handle_connection cfg loads create w headers frames =
              w\<lparr>sent := sent w @ [JObj [(''type'', JStr ''error''),
                                          (''message'', JStr msg_missing_device_id)]],
                conn_open := False\<rparr>) \<and>
         (\<not> (require_device_id cfg \<and> (device_id = None \<or> device_id = Some [])) \<and>
          allowed_devices cfg \<noteq> [] \<and>
          (device_id = None \<or> (\<exists>d. device_id = Some d \<and> d \<notin> set (allowed_devices cfg))) \<longrightarrow>
            handle_connection cfg loads create w headers frames =
              w\<lparr>sent := sent w @ [JObj [(''type'', JStr ''error''),
                                          (''message'', JStr msg_unauthorized)]],
                conn_open := False\<rparr>) \<and>
         (\<not> (require_device_id cfg \<and> (device_id = None \<or> device_id = Some [])) \<and>
          \<not> (allowed_devices cfg \<noteq> [] \<and>
             (device_id = None \<or> (\<exists>d. device_id = Some d \<and> d \<notin> set (allowed_devices cfg)))) \<longrightarrow>
            handle_connection cfg loads create w headers frames =
              receive_loop cfg loads create w frames device_id)"
  using assms
  by (auto simp: handle_connection_def send_error_plain close_def split: option.splits)

theorem handle_connection_gate_witness:
  "Some ''dev-B'' = map_of [(''device-id'', ''dev-B'')] ''device-id'' \<and>
   handle_connection (sample_config\<lparr>allowed_devices := [''dev-A'']\<rparr>) sample_loads
       (steady_create ''pong'') (fresh ()) [(''device-id'', ''dev-B'')] [Text ''hello''] =
     \<lparr>sent = [JObj [(''type'', JStr ''error''), (''message'', JStr msg_unauthorized)]],
      conn_open = False, invoked = [], upstream = ()\<rparr>"
proof -
  have d: "Some ''dev-B'' = map_of [(''device-id'', ''dev-B'')] ''device-id''"
    by simp
  from handle_connection_gate [OF d, of "sample_config\<lparr>allowed_devices := [''dev-A'']\<rparr>"
      sample_loads "steady_create ''pong''" "fresh ()" "[Text ''hello'']"]
  show ?thesis
    by (simp add: sample_config_def fresh_def)
qed

text \<open>
  Claim C1 as stated lets a connection through whenever an identifier was supplied and the
  allow list is empty. A client that sends the header with an empty value has supplied one,
  and the allow list of \<open>sample_config\<close> is empty; the gateway rejects it all the same,
  where the receive loop would have answered the frame.
\<close>

theorem empty_device_id_counterexample:
  "map_of [(''device-id'', '''')] ''device-id'' = Some '''' \<and>
   require_device_id sample_config \<and> allowed_devices sample_config = [] \<and>
   handle_connection sample_config sample_loads (steady_create ''pong'') (fresh ())
       [(''device-id'', '''')] [Text ''hello''] =
     \<lparr>sent = [JObj [(''type'', JStr ''error''), (''message'', JStr msg_missing_device_id)]],
      conn_open = False, invoked = [], upstream = ()\<rparr> \<and>
   receive_loop sample_config sample_loads (steady_create ''pong'') (fresh ())
       [Text ''hello''] (Some '''') =
     \<lparr>sent = [JObj [(''type'', JStr ''response''), (''device_id'', JStr ''''),
                    (''content'', JStr ''pong'')]],
      conn_open = True,
      invoked = [JArr [JObj [(''role'', JStr ''user''), (''content'', JStr ''hello'')]]],
      upstream = ()\<rparr>"
  by (simp add: handle_connection_def sample_config_def fresh_def send_error_plain close_def
      handle_message_def parse_payload_def sample_loads_def normalized_def dict_get_def py_or_def
      call_openai_def steady_create_def completion_def send_def device_json_def)

section \<open>Correlation of replies\<close>

text \<open>
  Claim C2. When a text frame decodes to an object that has a \<open>request_id\<close>, exactly
  one frame is sent for it, and if that frame carries a \<open>request_id\<close>, it is the value the
  client supplied.
\<close>

theorem request_id_echo:
  assumes "loads s = Some (JObj payload)" and "map_of payload ''request_id'' = Some rid"
  shows "\<exists>frame. sent (handle_message cfg loads create w (Text s) device_id) = sent w @ [JObj frame] \<and>
           (\<forall>r. map_of frame ''request_id'' = Some r \<longrightarrow> r = rid)"
proof -
  have p: "parse_payload loads s = Some payload"
    using assms(1) by (rule parse_payload_object)
  have rid: "dict_get payload ''request_id'' = rid"
    using assms(2) by (simp add: dict_get_def)
  show ?thesis
  proof (cases "normalized payload")
    case None
    with p show ?thesis by (simp add: handle_message_missing)
  next
    case (Some messages)
    obtain r w' where c: "call_openai cfg create w messages = (r, w')"
      by (cases "call_openai cfg create w messages")
    have s': "sent w' = sent w"
      using call_openai_world [of cfg create w messages] c by simp
    show ?thesis
      using p Some c s' rid
      by (cases r) (simp_all add: handle_message_Text send_error_correlated send_def)
  qed
qed

theorem request_id_echo_witness:
  \<open>sample_loads ''{"text":"hi","request_id":"42"}'' =
      Some (JObj [(''text'', JStr ''hi''), (''request_id'', JStr ''42'')]) \<and>
    map_of [(''text'', JStr ''hi''), (''request_id'', JStr ''42'')] ''request_id'' = Some (JStr ''42'') \<and>
    (\<exists>frame. sent (handle_message sample_config sample_loads (steady_create ''pong'') (fresh ())
                     (Text ''{"text":"hi","request_id":"42"}'') (Some ''dev-A'')) =
               sent (fresh ()) @ [JObj frame] \<and>
             (\<forall>r. map_of frame ''request_id'' = Some r \<longrightarrow> r = JStr ''42''))\<close>
proof -
  have l: \<open>sample_loads ''{"text":"hi","request_id":"42"}'' =
      Some (JObj [(''text'', JStr ''hi''), (''request_id'', JStr ''42'')])\<close>
    by (simp add: sample_loads_def)
  have m: "map_of [(''text'', JStr ''hi''), (''request_id'', JStr ''42'')] ''request_id'' = Some (JStr ''42'')"
    by simp
  from request_id_echo [where loads = sample_loads and payload = "[(''text'', JStr ''hi''), (''request_id'', JStr ''42'')]", OF l m] l m
  show ?thesis by blast
qed

text \<open>
  Claim C3 requires the error for a frame that has a \<open>request_id\<close> but no content to carry
  that \<open>request_id\<close>. The gateway reads \<open>request_id\<close> only after the missing-content
  check, so the error frame of that branch has the two fields \<open>type\<close> and \<open>message\<close> and
  no correlation id, whereas the error frame of a failed upstream call is sent with it.
\<close>

theorem missing_content_error_uncorrelated:
  \<open>sample_loads ''{"request_id":"42"}'' = Some (JObj [(''request_id'', JStr ''42'')]) \<and>
   handle_message cfg sample_loads create w (Text ''{"request_id":"42"}'') device_id =
     w\<lparr>sent := sent w @ [JObj [(''type'', JStr ''error''), (''message'', JStr msg_missing_content)]]\<rparr>\<close>
  by (simp add: handle_message_def parse_payload_def sample_loads_def normalized_def dict_get_def
      py_or_def send_error_plain)

section \<open>Normalization of text frames\<close>

text \<open>
  Claim C4, as the code has it. A non-empty text frame on which \<^verbatim>\<open>json.loads\<close> raises
  \<^verbatim>\<open>JSONDecodeError\<close> is not rejected: it is parsed to the fallback envelope with the raw
  text under \<open>text\<close>, normalization gives the single user turn with the raw text as
  content, the Backend Adapter is called with exactly that turn sequence, and the one frame
  sent in reply has no \<open>request_id\<close> and is neither the missing-content nor the
  invalid-format error.
\<close>

theorem plain_text_fallback:
  assumes "loads s = None" and "s \<noteq> []"
  shows "parse_payload loads s = Some [(''text'', JStr s)] \<and>
         normalized [(''text'', JStr s)] =
           Some (JArr [JObj [(''role'', JStr ''user''), (''content'', JStr s)]]) \<and>
         invoked (handle_message cfg loads create w (Text s) device_id) =
           invoked w @ [JArr [JObj [(''role'', JStr ''user''), (''content'', JStr s)]]] \<and>
         (\<exists>frame. sent (handle_message cfg loads create w (Text s) device_id) =
                    sent w @ [JObj frame] \<and>
                  map_of frame ''request_id'' = None \<and>
                  map_of frame ''message'' \<noteq> Some (JStr msg_missing_content) \<and>
                  map_of frame ''message'' \<noteq> Some (JStr msg_invalid_format))"
proof -
  have p: "parse_payload loads s = Some [(''text'', JStr s)]"
    using assms(1) by (rule parse_payload_fallback)
  have n: "normalized [(''text'', JStr s)] =
             Some (JArr [JObj [(''role'', JStr ''user''), (''content'', JStr s)]])"
    using assms(2) by (simp add: normalized_def dict_get_def py_or_def)
  have i: "invoked (handle_message cfg loads create w (Text s) device_id) =
             invoked w @ [JArr [JObj [(''role'', JStr ''user''), (''content'', JStr s)]]]"
    using p n by (rule handle_message_invoked)
  have r: "dict_get [(''text'', JStr s)] ''request_id'' = JNull"
    by (simp add: dict_get_def)
  have f: "\<exists>frame. sent (handle_message cfg loads create w (Text s) device_id) =
                    sent w @ [JObj frame] \<and>
                  map_of frame ''request_id'' = None \<and>
                  map_of frame ''message'' \<noteq> Some (JStr msg_missing_content) \<and>
                  map_of frame ''message'' \<noteq> Some (JStr msg_invalid_format)"
    using handle_message_reply_frame [OF p n, of cfg create w device_id] r
    by (auto simp: msg_openai_failed_def msg_missing_content_def msg_invalid_format_def)
  from p n i f show ?thesis by blast
qed

theorem plain_text_fallback_witness:
  "sample_loads ''hello'' = None \<and> ''hello'' \<noteq> [] \<and>
   normalized [(''text'', JStr ''hello'')] =
     Some (JArr [JObj [(''role'', JStr ''user''), (''content'', JStr ''hello'')]]) \<and>
   invoked (handle_message sample_config sample_loads (steady_create ''pong'') (fresh ())
              (Text ''hello'') (Some ''dev-A'')) =
     invoked (fresh ()) @ [JArr [JObj [(''role'', JStr ''user''), (''content'', JStr ''hello'')]]]"
proof -
  have l: "sample_loads ''hello'' = None"
    by (simp add: sample_loads_def)
  have n: "''hello'' \<noteq> []"
    by simp
  from plain_text_fallback [where loads = sample_loads, OF l n,
      of sample_config "steady_create ''pong''" "fresh ()" "Some ''dev-A''"] l
  show ?thesis
    by simp
qed

text \<open>
  Claim C4 as stated covers every text frame that is not valid JSON, and two kinds of such
  frames are rejected. The empty text frame makes \<^verbatim>\<open>json.loads\<close> raise, but its fallback
  envelope holds the empty string, which \<^verbatim>\<open>not text\<close> counts as missing: the frame is
  answered by the missing-content error. The frame NaN is not valid JSON, yet
  \<^verbatim>\<open>json.loads\<close> decodes it, to a float; the result is not a dictionary, so the frame is
  answered by the invalid-format error. The Backend Adapter is called for neither.
\<close>

theorem undecoded_text_frames_counterexample:
  "sample_loads '''' = None \<and>
   parse_payload sample_loads '''' = Some [(''text'', JStr '''')] \<and>
   normalized [(''text'', JStr '''')] = None \<and>
   handle_message sample_config sample_loads (steady_create ''pong'') (fresh ()) (Text '''')
       (Some ''dev-A'') =
     \<lparr>sent = [JObj [(''type'', JStr ''error''), (''message'', JStr msg_missing_content)]],
      conn_open = True, invoked = [], upstream = ()\<rparr> \<and>
   sample_loads ''NaN'' = Some (JFloat FloatNaN) \<and>
   parse_payload sample_loads ''NaN'' = None \<and>
   handle_message sample_config sample_loads (steady_create ''pong'') (fresh ()) (Text ''NaN'')
       (Some ''dev-A'') =
     \<lparr>sent = [JObj [(''type'', JStr ''error''), (''message'', JStr msg_invalid_format)]],
      conn_open = True, invoked = [], upstream = ()\<rparr>"
  by (simp add: sample_loads_def parse_payload_def normalized_def dict_get_def py_or_def
      handle_message_def send_error_plain fresh_def)

text \<open>
  Claim C5, as the code has it. For an object frame whose \<open>messages\<close> field is absent or
  falsy, the fields \<open>text\<close>, \<open>content\<close> and \<open>prompt\<close> are tried in this order and the first
  truthy value becomes the content of the single user turn, with which the Backend Adapter
  is called; when none of the three is truthy the frame is answered by the missing-content
  error.
\<close>

theorem flat_message_selection:
  assumes "loads s = Some (JObj payload)" and "\<not> truthy (dict_get payload ''messages'')"
  shows "(truthy (dict_get payload ''text'') \<longrightarrow>
            normalized payload =
              Some (JArr [JObj [(''role'', JStr ''user''), (''content'', dict_get payload ''text'')]])) \<and>
         (\<not> truthy (dict_get payload ''text'') \<and> truthy (dict_get payload ''content'') \<longrightarrow>
            normalized payload =
              Some (JArr [JObj [(''role'', JStr ''user''), (''content'', dict_get payload ''content'')]])) \<and>
         (\<not> truthy (dict_get payload ''text'') \<and> \<not> truthy (dict_get payload ''content'') \<and>
          truthy (dict_get payload ''prompt'') \<longrightarrow>
            normalized payload =
              Some (JArr [JObj [(''role'', JStr ''user''), (''content'', dict_get payload ''prompt'')]])) \<and>
         (\<not> truthy (dict_get payload ''text'') \<and> \<not> truthy (dict_get payload ''content'') \<and>
          \<not> truthy (dict_get payload ''prompt'') \<longrightarrow>
            normalized payload = None \<and>
            handle_message cfg loads create w (Text s) device_id =
              w\<lparr>sent := sent w @ [JObj [(''type'', JStr ''error''),
                                          (''message'', JStr msg_missing_content)]]\<rparr>) \<and>
         (\<forall>messages. normalized payload = Some messages \<longrightarrow>
            invoked (handle_message cfg loads create w (Text s) device_id) = invoked w @ [messages])"
proof -
  have p: "parse_payload loads s = Some payload"
    using assms(1) by (rule parse_payload_object)
  have a: "truthy (dict_get payload ''text'') \<longrightarrow>
            normalized payload =
              Some (JArr [JObj [(''role'', JStr ''user''), (''content'', dict_get payload ''text'')]])"
    using assms(2) by (simp add: normalized_def py_or_def)
  have b: "\<not> truthy (dict_get payload ''text'') \<and> truthy (dict_get payload ''content'') \<longrightarrow>
            normalized payload =
              Some (JArr [JObj [(''role'', JStr ''user''), (''content'', dict_get payload ''content'')]])"
    using assms(2) by (simp add: normalized_def py_or_def)
  have c: "\<not> truthy (dict_get payload ''text'') \<and> \<not> truthy (dict_get payload ''content'') \<and>
          truthy (dict_get payload ''prompt'') \<longrightarrow>
            normalized payload =
              Some (JArr [JObj [(''role'', JStr ''user''), (''content'', dict_get payload ''prompt'')]])"
    using assms(2) by (simp add: normalized_def py_or_def)
  have d: "\<not> truthy (dict_get payload ''text'') \<and> \<not> truthy (dict_get payload ''content'') \<and>
          \<not> truthy (dict_get payload ''prompt'') \<longrightarrow> normalized payload = None"
    using assms(2) by (simp add: normalized_def py_or_def)
  have e: "normalized payload = None \<longrightarrow>
            handle_message cfg loads create w (Text s) device_id =
              w\<lparr>sent := sent w @ [JObj [(''type'', JStr ''error''),
                                          (''message'', JStr msg_missing_content)]]\<rparr>"
    using p by (simp add: handle_message_missing)
  have f: "\<forall>messages. normalized payload = Some messages \<longrightarrow>
            invoked (handle_message cfg loads create w (Text s) device_id) = invoked w @ [messages]"
    using p by (simp add: handle_message_invoked)
  from a b c d e f show ?thesis by blast
qed

theorem flat_message_selection_witness:
  \<open>sample_loads ''{"content":"second","prompt":"third"}'' =
     Some (JObj [(''content'', JStr ''second''), (''prompt'', JStr ''third'')]) \<and>
   \<not> truthy (dict_get [(''content'', JStr ''second''), (''prompt'', JStr ''third'')] ''messages'') \<and>
   normalized [(''content'', JStr ''second''), (''prompt'', JStr ''third'')] =
     Some (JArr [JObj [(''role'', JStr ''user''), (''content'', JStr ''second'')]]) \<and>
   invoked (handle_message sample_config sample_loads (steady_create ''pong'') (fresh ())
              (Text ''{"content":"second","prompt":"third"}'') (Some ''dev-A'')) =
     [JArr [JObj [(''role'', JStr ''user''), (''content'', JStr ''second'')]]]\<close>
proof -
  have l: \<open>sample_loads ''{"content":"second","prompt":"third"}'' =
     Some (JObj [(''content'', JStr ''second''), (''prompt'', JStr ''third'')])\<close>
    by (simp add: sample_loads_def)
  have m: "\<not> truthy (dict_get [(''content'', JStr ''second''), (''prompt'', JStr ''third'')] ''messages'')"
    by (simp add: dict_get_def)
  from flat_message_selection [where loads = sample_loads
      and payload = "[(''content'', JStr ''second''), (''prompt'', JStr ''third'')]", OF l m,
      of sample_config "steady_create ''pong''" "fresh ()" "Some ''dev-A''"] l m
  show ?thesis
    by (simp add: dict_get_def fresh_def)
qed

text \<open>
  Claim C5 as stated speaks of every object frame without a non-empty \<open>messages\<close> list.
  A frame whose \<open>messages\<close> field is a string has no such list, yet its flat \<open>text\<close>
  field is ignored: the string itself is what the Backend Adapter receives.
\<close>

theorem non_list_messages_counterexample:
  \<open>sample_loads ''{"messages":"abc","text":"hi"}'' =
     Some (JObj [(''messages'', JStr ''abc''), (''text'', JStr ''hi'')]) \<and>
   dict_get [(''messages'', JStr ''abc''), (''text'', JStr ''hi'')] ''messages'' = JStr ''abc'' \<and>
   dict_get [(''messages'', JStr ''abc''), (''text'', JStr ''hi'')] ''text'' = JStr ''hi'' \<and>
   normalized [(''messages'', JStr ''abc''), (''text'', JStr ''hi'')] = Some (JStr ''abc'') \<and>
   normalized [(''messages'', JStr ''abc''), (''text'', JStr ''hi'')] \<noteq>
     Some (JArr [JObj [(''role'', JStr ''user''), (''content'', JStr ''hi'')]]) \<and>
   invoked (handle_message sample_config sample_loads (steady_create ''pong'') (fresh ())
              (Text ''{"messages":"abc","text":"hi"}'') (Some ''dev-A'')) = [JStr ''abc'']\<close>
  by (simp add: sample_loads_def dict_get_def normalized_def handle_message_def parse_payload_def
      call_openai_def steady_create_def completion_def send_def fresh_def)

section \<open>Failures of the upstream service\<close>

text \<open>
  Claim C7. Suppose a text frame normalizes to \<open>messages\<close> and the upstream call for it
  raises with the text \<open>detail\<close>. Then the gateway sends exactly one frame for it, an error
  frame whose message is the failure prefix followed by \<open>detail\<close> (with the frame's
  \<open>request_id\<close> when that is truthy); the connection is not closed; the receive loop goes on
  with the frames that follow; and a following frame that normalizes and whose upstream call
  returns is answered by a response frame in the usual way.
\<close>

theorem upstream_failure_per_request:
  assumes "parse_payload loads s = Some payload" and "normalized payload = Some messages"
    and "create (model cfg) messages (upstream w) = (Inl detail, u)"
  shows "handle_message cfg loads create w (Text s) device_id =
           w\<lparr>sent := sent w @
                   [JObj ([(''type'', JStr ''error''),
                           (''message'', JStr (msg_openai_failed @ detail))] @
                          (if truthy (dict_get payload ''request_id'')
                           then [(''request_id'', dict_get payload ''request_id'')] else []))],
             invoked := invoked w @ [messages], upstream := u\<rparr> \<and>
         conn_open (handle_message cfg loads create w (Text s) device_id) = conn_open w \<and>
         receive_loop cfg loads create w (Text s # rest) device_id =
           receive_loop cfg loads create (handle_message cfg loads create w (Text s) device_id)
             rest device_id \<and>
         (\<forall>s2 payload2 messages2 response u2.
            parse_payload loads s2 = Some payload2 \<and> normalized payload2 = Some messages2 \<and>
            create (model cfg) messages2 u = (Inr response, u2) \<longrightarrow>
            (\<exists>reply. receive_loop cfg loads create w [Text s, Text s2] device_id =
               w\<lparr>sent := sent w @
                       [JObj ([(''type'', JStr ''error''),
                               (''message'', JStr (msg_openai_failed @ detail))] @
                              (if truthy (dict_get payload ''request_id'')
                               then [(''request_id'', dict_get payload ''request_id'')] else [])),
                        JObj ([(''type'', JStr ''response''),
                               (''device_id'', device_json device_id),
                               (''content'', JStr reply)] @
                              (if truthy (dict_get payload2 ''request_id'')
                               then [(''request_id'', dict_get payload2 ''request_id'')] else []))],
                 invoked := invoked w @ [messages, messages2], upstream := u2\<rparr>))"
proof -
  let ?e = "JObj ([(''type'', JStr ''error''),
                   (''message'', JStr (msg_openai_failed @ detail))] @
                  (if truthy (dict_get payload ''request_id'')
                   then [(''request_id'', dict_get payload ''request_id'')] else []))"
  let ?w1 = "w\<lparr>sent := sent w @ [?e], invoked := invoked w @ [messages], upstream := u\<rparr>"
  have first: "handle_message cfg loads create w (Text s) device_id = ?w1"
    using assms by (rule handle_message_upstream_raises)
  have op: "conn_open (handle_message cfg loads create w (Text s) device_id) = conn_open w"
    by (simp add: first)
  have loop: "receive_loop cfg loads create w (Text s # rest) device_id =
           receive_loop cfg loads create (handle_message cfg loads create w (Text s) device_id)
             rest device_id"
    by simp
  have next_frame: "\<exists>reply. receive_loop cfg loads create w [Text s, Text s2] device_id =
       w\<lparr>sent := sent w @
               [?e,
                JObj ([(''type'', JStr ''response''),
                       (''device_id'', device_json device_id),
                       (''content'', JStr reply)] @
                      (if truthy (dict_get payload2 ''request_id'')
                       then [(''request_id'', dict_get payload2 ''request_id'')] else []))],
         invoked := invoked w @ [messages, messages2], upstream := u2\<rparr>"
    if p2: "parse_payload loads s2 = Some payload2" and n2: "normalized payload2 = Some messages2"
      and c2: "create (model cfg) messages2 u = (Inr response, u2)"
    for s2 payload2 messages2 response u2
  proof -
    have c2': "create (model cfg) messages2 (upstream ?w1) = (Inr response, u2)"
      using c2 by simp
    have "\<exists>reply. handle_message cfg loads create ?w1 (Text s2) device_id =
        ?w1\<lparr>sent := sent ?w1 @
                  [JObj ([(''type'', JStr ''response''), (''device_id'', device_json device_id),
                          (''content'', JStr reply)] @
                         (if truthy (dict_get payload2 ''request_id'')
                          then [(''request_id'', dict_get payload2 ''request_id'')] else []))],
            invoked := invoked ?w1 @ [messages2], upstream := u2\<rparr>"
      using p2 n2 c2' by (rule handle_message_upstream_returns)
    then obtain reply where second: "handle_message cfg loads create ?w1 (Text s2) device_id =
        ?w1\<lparr>sent := sent ?w1 @
                  [JObj ([(''type'', JStr ''response''), (''device_id'', device_json device_id),
                          (''content'', JStr reply)] @
                         (if truthy (dict_get payload2 ''request_id'')
                          then [(''request_id'', dict_get payload2 ''request_id'')] else []))],
            invoked := invoked ?w1 @ [messages2], upstream := u2\<rparr>"
      by (rule exE)
    have both: "receive_loop cfg loads create w [Text s, Text s2] device_id =
       w\<lparr>sent := sent w @
               [?e,
                JObj ([(''type'', JStr ''response''),
                       (''device_id'', device_json device_id),
                       (''content'', JStr reply)] @
                      (if truthy (dict_get payload2 ''request_id'')
                       then [(''request_id'', dict_get payload2 ''request_id'')] else []))],
         invoked := invoked w @ [messages, messages2], upstream := u2\<rparr>"
    proof -
      have "receive_loop cfg loads create w [Text s, Text s2] device_id =
              handle_message cfg loads create
                (handle_message cfg loads create w (Text s) device_id) (Text s2) device_id"
        by simp
      also have "\<dots> = handle_message cfg loads create ?w1 (Text s2) device_id"
        by (simp only: first)
      also note second
      also have "?w1\<lparr>sent := sent ?w1 @
                  [JObj ([(''type'', JStr ''response''), (''device_id'', device_json device_id),
                          (''content'', JStr reply)] @
                         (if truthy (dict_get payload2 ''request_id'')
                          then [(''request_id'', dict_get payload2 ''request_id'')] else []))],
            invoked := invoked ?w1 @ [messages2], upstream := u2\<rparr> =
          w\<lparr>sent := sent w @
               [?e,
                JObj ([(''type'', JStr ''response''),
                       (''device_id'', device_json device_id),
                       (''content'', JStr reply)] @
                      (if truthy (dict_get payload2 ''request_id'')
                       then [(''request_id'', dict_get payload2 ''request_id'')] else []))],
         invoked := invoked w @ [messages, messages2], upstream := u2\<rparr>"
        by simp
      finally show ?thesis .
    qed
    show ?thesis
      by (rule exI) (rule both)
  qed
  show ?thesis
    apply (intro conjI allI impI)
       apply (rule first)
      apply (rule op)
     apply (rule loop)
    apply (elim conjE)
    apply (erule (2) next_frame)
    done
qed

theorem upstream_failure_per_request_witness:
  "parse_payload sample_loads ''hello'' = Some [(''text'', JStr ''hello'')] \<and>
   normalized [(''text'', JStr ''hello'')] =
     Some (JArr [JObj [(''role'', JStr ''user''), (''content'', JStr ''hello'')]]) \<and>
   flaky_create (model sample_config)
       (JArr [JObj [(''role'', JStr ''user''), (''content'', JStr ''hello'')]])
       (upstream (fresh 0)) = (Inl ''Request timed out.'', Suc 0) \<and>
   handle_message sample_config sample_loads flaky_create (fresh 0) (Text ''hello'')
       (Some ''dev-A'') =
     \<lparr>sent = [JObj [(''type'', JStr ''error''),
                    (''message'', JStr (msg_openai_failed @ ''Request timed out.''))]],
      conn_open = True,
      invoked = [JArr [JObj [(''role'', JStr ''user''), (''content'', JStr ''hello'')]]],
      upstream = Suc 0\<rparr> \<and>
   (\<exists>reply. receive_loop sample_config sample_loads flaky_create (fresh 0)
       [Text ''hello'', Text ''hello''] (Some ''dev-A'') =
     \<lparr>sent = [JObj [(''type'', JStr ''error''),
                    (''message'', JStr (msg_openai_failed @ ''Request timed out.''))],
              JObj [(''type'', JStr ''response''), (''device_id'', JStr ''dev-A''),
                    (''content'', JStr reply)]],
      conn_open = True,
      invoked = [JArr [JObj [(''role'', JStr ''user''), (''content'', JStr ''hello'')]],
                 JArr [JObj [(''role'', JStr ''user''), (''content'', JStr ''hello'')]]],
      upstream = Suc (Suc 0)\<rparr>)"
proof -
  let ?turns = "JArr [JObj [(''role'', JStr ''user''), (''content'', JStr ''hello'')]]"
  have p: "parse_payload sample_loads ''hello'' = Some [(''text'', JStr ''hello'')]"
    by (simp add: parse_payload_def sample_loads_def)
  have n: "normalized [(''text'', JStr ''hello'')] = Some ?turns"
    by (simp add: normalized_def dict_get_def py_or_def)
  have c: "flaky_create (model sample_config) ?turns (upstream (fresh 0)) =
             (Inl ''Request timed out.'', Suc 0)"
    by (simp add: flaky_create_def fresh_def)
  have c2: "flaky_create (model sample_config) ?turns (Suc 0) =
              (Inr (completion ''pong''), Suc (Suc 0))"
    by (simp add: flaky_create_def)
  note t = upstream_failure_per_request [where create = flaky_create and cfg = sample_config
      and w = "fresh 0" and device_id = "Some ''dev-A''", OF p n c]
  from t have first: "handle_message sample_config sample_loads flaky_create (fresh 0)
      (Text ''hello'') (Some ''dev-A'') =
     \<lparr>sent = [JObj [(''type'', JStr ''error''),
                    (''message'', JStr (msg_openai_failed @ ''Request timed out.''))]],
      conn_open = True,
      invoked = [?turns],
      upstream = Suc 0\<rparr>"
    by (simp add: dict_get_def fresh_def)
  note later = t [THEN conjunct2, THEN conjunct2, THEN conjunct2, rule_format,
      of "''hello''" "[(''text'', JStr ''hello'')]" ?turns "completion ''pong''" "Suc (Suc 0)",
      OF conjI [OF p conjI [OF n c2]]]
  from later have second: "\<exists>reply. receive_loop sample_config sample_loads flaky_create (fresh 0)
       [Text ''hello'', Text ''hello''] (Some ''dev-A'') =
     \<lparr>sent = [JObj [(''type'', JStr ''error''),
                    (''message'', JStr (msg_openai_failed @ ''Request timed out.''))],
              JObj [(''type'', JStr ''response''), (''device_id'', JStr ''dev-A''),
                    (''content'', JStr reply)]],
      conn_open = True,
      invoked = [?turns, ?turns],
      upstream = Suc (Suc 0)\<rparr>"
    by (simp add: dict_get_def fresh_def device_json_def)
  from p n c first second show ?thesis by (intro conjI)
qed

section \<open>The device header\<close>

text \<open>
  Claim C9. Let the upgrade request carry a header whose name is device-id in any letter
  case, with the value \<open>v\<close>, and let no header name be repeated. Then the conversion of
  the headers succeeds and the gateway runs the authentication gate on \<open>v\<close>: the presence
  check rejects when \<open>require_device_id\<close> is set and \<open>v\<close> is empty, the membership check
  rejects when \<open>allowed_devices\<close> is non-empty and \<open>v\<close> is not in it, and otherwise the
  receive loop runs with \<open>v\<close> as the device identifier. The outcome is the one of a request
  that has this header alone and spelt in lower case.
\<close>

theorem device_header_case_insensitive:
  assumes "(name, v) \<in> set raw" and "lower name = ''device-id''"
    and "distinct (map (\<lambda>(name, v). lower name) raw)"
  shows "serve_connection cfg loads create w raw frames =
           Inr (if require_device_id cfg \<and> v = []
                then w\<lparr>sent := sent w @ [JObj [(''type'', JStr ''error''),
                                                (''message'', JStr msg_missing_device_id)]],
                       conn_open := False\<rparr>
                else if allowed_devices cfg \<noteq> [] \<and> v \<notin> set (allowed_devices cfg)
                then w\<lparr>sent := sent w @ [JObj [(''type'', JStr ''error''),
                                                (''message'', JStr msg_unauthorized)]],
                       conn_open := False\<rparr>
                else receive_loop cfg loads create w frames (Some v)) \<and>
         serve_connection cfg loads create w raw frames =
           serve_connection cfg loads create w [(''device-id'', v)] frames"
proof -
  have found: "map_of (map (\<lambda>(name, v). (lower name, v)) raw) ''device-id'' = Some v"
    using map_of_request_headers [OF assms(1,3)] assms(2) by simp
  have any_case: "serve_connection cfg loads create w raw frames =
      Inr (handle_connection cfg loads create w (map (\<lambda>(name, v). (lower name, v)) raw) frames)"
    by (simp add: serve_connection_def request_headers_distinct [OF assms(3)])
  have "request_headers [(''device-id'', v)] = Inr [(''device-id'', v)]"
    using request_headers_distinct [of "[(''device-id'', v)]"] by (simp add: lower_device_id)
  then have lower_case: "serve_connection cfg loads create w [(''device-id'', v)] frames =
      Inr (handle_connection cfg loads create w [(''device-id'', v)] frames)"
    by (simp add: serve_connection_def)
  have single: "map_of [(''device-id'', v)] ''device-id'' = Some v"
    by simp
  show ?thesis
    unfolding any_case lower_case handle_connection_device [OF found]
      handle_connection_device [OF single]
    by simp
qed

theorem device_header_case_insensitive_witness:
  "(''DEVICE-ID'', ''dev-A'') \<in> set [(''Host'', ''gw''), (''DEVICE-ID'', ''dev-A'')] \<and>
   lower ''DEVICE-ID'' = ''device-id'' \<and>
   distinct (map (\<lambda>(name, v). lower name) [(''Host'', ''gw''), (''DEVICE-ID'', ''dev-A'')]) \<and>
   serve_connection (sample_config\<lparr>allowed_devices := [''dev-A'']\<rparr>) sample_loads
       (steady_create ''pong'') (fresh ()) [(''Host'', ''gw''), (''DEVICE-ID'', ''dev-A'')]
       [Text ''hello''] =
     Inr \<lparr>sent = [JObj [(''type'', JStr ''response''), (''device_id'', JStr ''dev-A''),
                        (''content'', JStr ''pong'')]],
          conn_open = True,
          invoked = [JArr [JObj [(''role'', JStr ''user''), (''content'', JStr ''hello'')]]],
          upstream = ()\<rparr> \<and>
   serve_connection (sample_config\<lparr>allowed_devices := [''dev-B'']\<rparr>) sample_loads
       (steady_create ''pong'') (fresh ()) [(''Host'', ''gw''), (''DEVICE-ID'', ''dev-A'')]
       [Text ''hello''] =
     Inr \<lparr>sent = [JObj [(''type'', JStr ''error''), (''message'', JStr msg_unauthorized)]],
          conn_open = False, invoked = [], upstream = ()\<rparr>"
proof -
  have m: "(''DEVICE-ID'', ''dev-A'') \<in> set [(''Host'', ''gw''), (''DEVICE-ID'', ''dev-A'')]"
    by simp
  have l: "lower ''DEVICE-ID'' = ''device-id''"
    by (simp add: lower_def lower_char_def)
  have d: "distinct (map (\<lambda>(name, v). lower name) [(''Host'', ''gw''), (''DEVICE-ID'', ''dev-A'')])"
    by (simp add: lower_def lower_char_def)
  have run: "receive_loop (sample_config\<lparr>allowed_devices := [''dev-A'']\<rparr>) sample_loads
       (steady_create ''pong'') (fresh ()) [Text ''hello''] (Some ''dev-A'') =
     \<lparr>sent = [JObj [(''type'', JStr ''response''), (''device_id'', JStr ''dev-A''),
                    (''content'', JStr ''pong'')]],
      conn_open = True,
      invoked = [JArr [JObj [(''role'', JStr ''user''), (''content'', JStr ''hello'')]]],
      upstream = ()\<rparr>"
    by (simp add: sample_config_def fresh_def handle_message_def parse_payload_def
        sample_loads_def normalized_def dict_get_def py_or_def call_openai_def steady_create_def
        completion_def send_def device_json_def)
  have accepted: "serve_connection (sample_config\<lparr>allowed_devices := [''dev-A'']\<rparr>) sample_loads
       (steady_create ''pong'') (fresh ()) [(''Host'', ''gw''), (''DEVICE-ID'', ''dev-A'')]
       [Text ''hello''] =
     Inr \<lparr>sent = [JObj [(''type'', JStr ''response''), (''device_id'', JStr ''dev-A''),
                        (''content'', JStr ''pong'')]],
          conn_open = True,
          invoked = [JArr [JObj [(''role'', JStr ''user''), (''content'', JStr ''hello'')]]],
          upstream = ()\<rparr>"
    using device_header_case_insensitive [OF m l d,
        of "sample_config\<lparr>allowed_devices := [''dev-A'']\<rparr>" sample_loads
          "steady_create ''pong''" "fresh ()" "[Text ''hello'']"] run
    by (simp add: sample_config_def)
  have rejected: "serve_connection (sample_config\<lparr>allowed_devices := [''dev-B'']\<rparr>) sample_loads
       (steady_create ''pong'') (fresh ()) [(''Host'', ''gw''), (''DEVICE-ID'', ''dev-A'')]
       [Text ''hello''] =
     Inr \<lparr>sent = [JObj [(''type'', JStr ''error''), (''message'', JStr msg_unauthorized)]],
          conn_open = False, invoked = [], upstream = ()\<rparr>"
    using device_header_case_insensitive [OF m l d,
        of "sample_config\<lparr>allowed_devices := [''dev-B'']\<rparr>" sample_loads
          "steady_create ''pong''" "fresh ()" "[Text ''hello'']"]
    by (simp add: sample_config_def fresh_def)
  from m l d accepted rejected show ?thesis
    by (intro conjI)
qed

section \<open>Messages supplied by the client\<close>

text \<open>
  Claim C10. When an object frame has a truthy \<open>messages\<close> value, of whatever shape, that
  value itself is the argument of the Backend Adapter, and the one frame sent in reply is
  either the response or the report of an upstream failure, never a protocol error.
\<close>

theorem messages_passed_verbatim:
  assumes "loads s = Some (JObj payload)" and "truthy (dict_get payload ''messages'')"
  shows "normalized payload = Some (dict_get payload ''messages'') \<and>
         invoked (handle_message cfg loads create w (Text s) device_id) =
           invoked w @ [dict_get payload ''messages''] \<and>
         (\<exists>body. sent (handle_message cfg loads create w (Text s) device_id) =
            sent w @ [JObj (body @ (if truthy (dict_get payload ''request_id'')
                                     then [(''request_id'', dict_get payload ''request_id'')]
                                     else []))] \<and>
            ((\<exists>reply. body = [(''type'', JStr ''response''), (''device_id'', device_json device_id),
                                (''content'', JStr reply)]) \<or>
             (\<exists>exc. body = [(''type'', JStr ''error''),
                              (''message'', JStr (msg_openai_failed @ exc))])))"
proof -
  have p: "parse_payload loads s = Some payload"
    using assms(1) by (rule parse_payload_object)
  have n: "normalized payload = Some (dict_get payload ''messages'')"
    using assms(2) by (simp add: normalized_def)
  from n handle_message_invoked [OF p n] handle_message_reply_frame [OF p n]
  show ?thesis by blast
qed

theorem messages_passed_verbatim_witness:
  \<open>sample_loads ''{"messages":[{"role":"user"}]}'' =
     Some (JObj [(''messages'', JArr [JObj [(''role'', JStr ''user'')]])]) \<and>
   truthy (dict_get [(''messages'', JArr [JObj [(''role'', JStr ''user'')]])] ''messages'') \<and>
   invoked (handle_message sample_config sample_loads (steady_create ''pong'') (fresh ())
              (Text ''{"messages":[{"role":"user"}]}'') (Some ''dev-A'')) =
     [JArr [JObj [(''role'', JStr ''user'')]]]\<close>
proof -
  have l: \<open>sample_loads ''{"messages":[{"role":"user"}]}'' =
     Some (JObj [(''messages'', JArr [JObj [(''role'', JStr ''user'')]])])\<close>
    by (simp add: sample_loads_def)
  have m: "truthy (dict_get [(''messages'', JArr [JObj [(''role'', JStr ''user'')]])] ''messages'')"
    by (simp add: dict_get_def)
  from messages_passed_verbatim [where loads = sample_loads
      and payload = "[(''messages'', JArr [JObj [(''role'', JStr ''user'')]])]", OF l m,
      of sample_config "steady_create ''pong''" "fresh ()" "Some ''dev-A''"] l m
  show ?thesis
    by (simp add: dict_get_def fresh_def)
qed

end
